theory Spec2Isabelle
  imports Main "HOL-Library.Word"
begin

unbundle bit_operations_syntax

section \<open>The wrapped library as seen by the wrapper\<close>

text \<open>
  The wrapper classes call into SDL2 and SDL2\_mixer, which are not part of the
  repository. A wrapper operation is modelled as a function that takes the library's
  answers as a parameter and returns its own result together with the list of library
  calls it made, in order. A thrown exception (or a failed \<open>assert\<close>) is the \<open>Inl\<close>
  branch of the result.

  A pointer is an address, \<open>nullptr\<close> being 0. The \<open>int\<close> arguments and results of
  the music, thread and haptic functions are only compared and passed on, never computed
  with, so they are integers without a bound; the fields of the event struct have their
  widths (\<open>i32\<close> holds the two's complement bits).
\<close>

type_synonym ptr = nat

definition nullptr :: ptr where
  "nullptr = 0"

type_synonym u8 = "8 word"
type_synonym u32 = "32 word"
type_synonym i32 = "32 word"

text \<open>Every library call the modelled operations make, with the arguments passed.\<close>

datatype sdl_call =
    Mix_LoadMUS string
  | Mix_PlayMusic ptr int
  | Mix_FadeInMusic ptr int int
  | Mix_FadeOutMusic int
  | Mix_VolumeMusic int
  | Mix_FadingMusic
  | SDL_CreateThread ptr string ptr
  | SDL_WaitThread ptr
  | SDL_DetachThread ptr
  | SDL_SetThreadPriority int
  | SDL_HapticOpen int
  | SDL_HapticIndex ptr
  | SDL_HapticClose ptr
  | SDL_SetClipboardText string
  | SDL_GetPrefPath string string

datatype error =
    mix_error string
  | sdl_error
  | cen_exception string
  | assertion_failed

type_synonym 'a outcome = "(error + 'a) \<times> sdl_call list"

text \<open>
  SDL2\_mixer: the constants that \<open>music.cpp\<close> and its test name, and what the calls
  return. \<open>MIX_NO_FADING\<close>, \<open>MIX_FADING_OUT\<close> and \<open>MIX_FADING_IN\<close> are the values of
  the \<open>fade_status\<close> enumerators \<open>none\<close>, \<open>out\<close> and \<open>in\<close> (music\_test.cpp).
\<close>

record mixer =
  MIX_MAX_VOLUME :: int
  MIX_NO_FADING :: int
  MIX_FADING_OUT :: int
  MIX_FADING_IN :: int
  ret_Mix_LoadMUS :: "string \<Rightarrow> ptr"
  ret_Mix_FadingMusic :: int
  ret_Mix_VolumeMusic :: "int \<Rightarrow> int"

text \<open>SDL2: the enumeration constants the wrapper enums are declared from.\<close>

record sdl_consts =
  SDL_THREAD_PRIORITY_LOW :: int
  SDL_THREAD_PRIORITY_NORMAL :: int
  SDL_THREAD_PRIORITY_HIGH :: int
  SDL_THREAD_PRIORITY_TIME_CRITICAL :: int
  SDL_MOUSEWHEEL_NORMAL :: int
  SDL_MOUSEWHEEL_FLIPPED :: int

record haptic_consts =
  SDL_HAPTIC_CONSTANT :: u32
  SDL_HAPTIC_SINE :: u32
  SDL_HAPTIC_LEFTRIGHT :: u32
  SDL_HAPTIC_TRIANGLE :: u32
  SDL_HAPTIC_SAWTOOTHUP :: u32
  SDL_HAPTIC_SAWTOOTHDOWN :: u32
  SDL_HAPTIC_RAMP :: u32
  SDL_HAPTIC_SPRING :: u32
  SDL_HAPTIC_DAMPER :: u32
  SDL_HAPTIC_INERTIA :: u32
  SDL_HAPTIC_FRICTION :: u32
  SDL_HAPTIC_CUSTOM :: u32
  SDL_HAPTIC_GAIN :: u32
  SDL_HAPTIC_AUTOCENTER :: u32
  SDL_HAPTIC_STATUS :: u32
  SDL_HAPTIC_PAUSE :: u32

text \<open>SDL2: what the calls made by the thread, haptic and clipboard wrappers return.\<close>

record sdl =
  enum_consts :: sdl_consts
  haptic_flags :: haptic_consts
  ret_SDL_CreateThread :: "ptr \<Rightarrow> string \<Rightarrow> ptr \<Rightarrow> ptr"
  ret_SDL_WaitThread :: "ptr \<Rightarrow> int"
  ret_SDL_SetThreadPriority :: "int \<Rightarrow> int"
  ret_SDL_HapticOpen :: "int \<Rightarrow> ptr"
  ret_SDL_HapticIndex :: "ptr \<Rightarrow> int"
  ret_SDL_SetClipboardText :: "string \<Rightarrow> int"

section \<open>CenturionException (centurion\_exception.cpp)\<close>

text \<open>
  A \<open>const char*\<close> is \<open>None\<close> when null and otherwise points to the characters
  before the terminating zero. Constructing a \<open>std::string\<close> from a null pointer is
  undefined behaviour: \<open>std_string_from_cstr\<close> returns \<open>None\<close> there.
\<close>

type_synonym czstring = "string option"

record CenturionException =
  msg :: string

definition std_string_from_cstr :: "czstring \<Rightarrow> string option" where
  "std_string_from_cstr p = (case p of None \<Rightarrow> None | Some s \<Rightarrow> Some s)"

definition CenturionException_ctor :: "czstring \<Rightarrow> CenturionException option" where
  "CenturionException_ctor m =
     (case std_string_from_cstr (if m \<noteq> None then m else Some ''N/A'') of
        None \<Rightarrow> None
      | Some s \<Rightarrow> Some \<lparr>msg = s\<rparr>)"

definition CenturionException_ctor_string :: "string \<Rightarrow> CenturionException" where
  "CenturionException_ctor_string m = \<lparr>msg = m\<rparr>"

definition what :: "CenturionException \<Rightarrow> string" where
  "what e = msg e"

section \<open>music (src/audio/music.cpp)\<close>

record music =
  m_music :: ptr

definition std_clamp :: "int \<Rightarrow> int \<Rightarrow> int \<Rightarrow> int" where
  "std_clamp v lo hi = (if v < lo then lo else if hi < v then hi else v)"

definition music_ctor :: "mixer \<Rightarrow> string \<Rightarrow> music outcome" where
  "music_ctor M file =
     (let p = ret_Mix_LoadMUS M file
      in (if p = nullptr then Inl (mix_error ''Failed to load music from file!'')
          else Inr \<lparr>m_music = p\<rparr>,
          [Mix_LoadMUS file]))"

definition music_play :: "music \<Rightarrow> int \<Rightarrow> unit outcome" where
  "music_play m nLoops =
     (let nLoops = (if nLoops < - 1 then - 1 else nLoops)
      in (Inr (), [Mix_PlayMusic (m_music m) nLoops]))"

definition music_fade_in :: "music \<Rightarrow> int \<Rightarrow> int \<Rightarrow> unit outcome" where
  "music_fade_in m ms nLoops =
     (let ms = (if ms < 0 then 0 else ms);
          nLoops = (if nLoops < - 1 then - 1 else nLoops)
      in (Inr (), [Mix_FadeInMusic (m_music m) nLoops ms]))"

definition music_get_fade_status :: "mixer \<Rightarrow> int \<times> sdl_call list" where
  "music_get_fade_status M = (ret_Mix_FadingMusic M, [Mix_FadingMusic])"

definition music_is_fading :: "mixer \<Rightarrow> bool \<times> sdl_call list" where
  "music_is_fading M =
     (let (status, calls) = music_get_fade_status M
      in (status = MIX_FADING_IN M \<or> status = MIX_FADING_OUT M, calls))"

definition music_fade_out :: "mixer \<Rightarrow> int \<Rightarrow> unit outcome" where
  "music_fade_out M ms =
     (let (fading, calls) = music_is_fading M
      in if fading then (Inr (), calls)
         else let ms = (if ms < 0 then 0 else ms)
              in (Inr (), calls @ [Mix_FadeOutMusic ms]))"

definition music_set_volume :: "mixer \<Rightarrow> int \<Rightarrow> unit outcome" where
  "music_set_volume M volume =
     (Inr (), [Mix_VolumeMusic (std_clamp volume 0 (MIX_MAX_VOLUME M))])"

definition music_volume :: "mixer \<Rightarrow> int outcome" where
  "music_volume M = (Inr (ret_Mix_VolumeMusic M (- 1)), [Mix_VolumeMusic (- 1)])"

section \<open>thread (thread.hpp)\<close>

datatype thread_priority = low | normal | high | critical

definition thread_priority_underlying :: "sdl_consts \<Rightarrow> thread_priority \<Rightarrow> int" where
  "thread_priority_underlying K p =
     (case p of
        low \<Rightarrow> SDL_THREAD_PRIORITY_LOW K
      | normal \<Rightarrow> SDL_THREAD_PRIORITY_NORMAL K
      | high \<Rightarrow> SDL_THREAD_PRIORITY_HIGH K
      | critical \<Rightarrow> SDL_THREAD_PRIORITY_TIME_CRITICAL K)"

text \<open>\<open>operator==(thread_priority, SDL_ThreadPriority)\<close>\<close>

definition thread_priority_eq :: "sdl_consts \<Rightarrow> thread_priority \<Rightarrow> int \<Rightarrow> bool" where
  "thread_priority_eq K lhs rhs = (thread_priority_underlying K lhs = rhs)"

record thread =
  m_thread :: ptr
  m_joined :: bool
  m_detached :: bool

definition thread_ctor :: "sdl \<Rightarrow> ptr \<Rightarrow> string \<Rightarrow> ptr \<Rightarrow> thread outcome" where
  "thread_ctor L task name data =
     (let p = ret_SDL_CreateThread L task name data
      in (if p = nullptr then Inl sdl_error
          else Inr \<lparr>m_thread = p, m_joined = False, m_detached = False\<rparr>,
          [SDL_CreateThread task name data]))"

definition joinable :: "thread \<Rightarrow> bool" where
  "joinable t = (\<not> m_joined t \<and> \<not> m_detached t)"

definition was_joined :: "thread \<Rightarrow> bool" where
  "was_joined t = m_joined t"

definition was_detached :: "thread \<Rightarrow> bool" where
  "was_detached t = m_detached t"

definition thread_set_priority :: "sdl \<Rightarrow> thread_priority \<Rightarrow> bool outcome" where
  "thread_set_priority L priority =
     (let prio = thread_priority_underlying (enum_consts L) priority
      in (Inr (ret_SDL_SetThreadPriority L prio = 0), [SDL_SetThreadPriority prio]))"

definition detach :: "thread \<Rightarrow> thread outcome" where
  "detach t =
     (if m_joined t \<or> m_detached t then (Inr t, [])
      else let t' = t\<lparr>m_detached := True\<rparr>
           in (if m_detached t' \<noteq> m_joined t' then Inr t' else Inl assertion_failed,
               [SDL_DetachThread (m_thread t)]))"

definition join :: "sdl \<Rightarrow> thread \<Rightarrow> (int \<times> thread) outcome" where
  "join L t =
     (if m_joined t \<or> m_detached t then (Inr (0, t), [])
      else let status = ret_SDL_WaitThread L (m_thread t);
               t' = t\<lparr>m_joined := True\<rparr>
           in (if m_detached t' \<noteq> m_joined t' then Inr (status, t') else Inl assertion_failed,
               [SDL_WaitThread (m_thread t)]))"

text \<open>\<open>~thread()\<close>: the thread object is gone afterwards, only the calls remain.\<close>

definition thread_dtor :: "sdl \<Rightarrow> thread \<Rightarrow> sdl_call list" where
  "thread_dtor L t = (if joinable t then snd (join L t) else [])"

text \<open>A sequence of \<open>join()\<close> and \<open>detach()\<close> calls on one thread object.\<close>

datatype thread_op = Join | Detach

fun thread_run :: "sdl \<Rightarrow> thread \<Rightarrow> thread_op list \<Rightarrow> thread outcome" where
  "thread_run L t [] = (Inr t, [])"
| "thread_run L t (Join # ops) =
     (case join L t of
        (Inl e, calls) \<Rightarrow> (Inl e, calls)
      | (Inr (status, t'), calls) \<Rightarrow>
          (case thread_run L t' ops of (r, calls') \<Rightarrow> (r, calls @ calls')))"
| "thread_run L t (Detach # ops) =
     (case detach t of
        (Inl e, calls) \<Rightarrow> (Inl e, calls)
      | (Inr t', calls) \<Rightarrow>
          (case thread_run L t' ops of (r, calls') \<Rightarrow> (r, calls @ calls')))"

section \<open>clipboard (clipboard.cpp)\<close>

definition clipboard_set_text :: "sdl \<Rightarrow> string \<Rightarrow> bool outcome" where
  "clipboard_set_text L text =
     (Inr (ret_SDL_SetClipboardText L text = 0), [SDL_SetClipboardText text])"

section \<open>mouse\_wheel\_direction (mouse\_wheel\_direction.hpp)\<close>

datatype mouse_wheel_direction = normal | flipped

definition mouse_wheel_direction_underlying :: "sdl_consts \<Rightarrow> mouse_wheel_direction \<Rightarrow> int" where
  "mouse_wheel_direction_underlying K d =
     (case d of
        mouse_wheel_direction.normal \<Rightarrow> SDL_MOUSEWHEEL_NORMAL K
      | flipped \<Rightarrow> SDL_MOUSEWHEEL_FLIPPED K)"

text \<open>\<open>operator==(mouse_wheel_direction, SDL_MouseWheelDirection)\<close> and \<open>operator!=\<close>\<close>

definition mouse_wheel_direction_eq :: "sdl_consts \<Rightarrow> mouse_wheel_direction \<Rightarrow> int \<Rightarrow> bool" where
  "mouse_wheel_direction_eq K lhs rhs = (mouse_wheel_direction_underlying K lhs = rhs)"

definition mouse_wheel_direction_neq :: "sdl_consts \<Rightarrow> mouse_wheel_direction \<Rightarrow> int \<Rightarrow> bool" where
  "mouse_wheel_direction_neq K lhs rhs = (\<not> mouse_wheel_direction_eq K lhs rhs)"

section \<open>basic\_haptic (haptic.hpp)\<close>

datatype haptic_feature =
    constant_feature | sine | left_right | triangle | sawtooth_up | sawtooth_down | ramp | spring
  | damper | inertia | friction | custom | gain | autocenter | status | pause

definition haptic_feature_underlying :: "haptic_consts \<Rightarrow> haptic_feature \<Rightarrow> u32" where
  "haptic_feature_underlying F f =
     (case f of
        constant_feature \<Rightarrow> SDL_HAPTIC_CONSTANT F
      | sine \<Rightarrow> SDL_HAPTIC_SINE F
      | left_right \<Rightarrow> SDL_HAPTIC_LEFTRIGHT F
      | triangle \<Rightarrow> SDL_HAPTIC_TRIANGLE F
      | sawtooth_up \<Rightarrow> SDL_HAPTIC_SAWTOOTHUP F
      | sawtooth_down \<Rightarrow> SDL_HAPTIC_SAWTOOTHDOWN F
      | ramp \<Rightarrow> SDL_HAPTIC_RAMP F
      | spring \<Rightarrow> SDL_HAPTIC_SPRING F
      | damper \<Rightarrow> SDL_HAPTIC_DAMPER F
      | inertia \<Rightarrow> SDL_HAPTIC_INERTIA F
      | friction \<Rightarrow> SDL_HAPTIC_FRICTION F
      | custom \<Rightarrow> SDL_HAPTIC_CUSTOM F
      | gain \<Rightarrow> SDL_HAPTIC_GAIN F
      | autocenter \<Rightarrow> SDL_HAPTIC_AUTOCENTER F
      | status \<Rightarrow> SDL_HAPTIC_STATUS F
      | pause \<Rightarrow> SDL_HAPTIC_PAUSE F)"

text \<open>
  \<open>is_owner\<close> is the template parameter \<open>B\<close>: true for \<open>haptic\<close>, false for
  \<open>haptic_handle\<close>.
\<close>

record basic_haptic =
  is_owner :: bool
  m_haptic :: ptr

text \<open>\<open>basic_haptic(SDL_Haptic*)\<close>, for both instantiations.\<close>

definition basic_haptic_ctor_ptr :: "bool \<Rightarrow> ptr \<Rightarrow> basic_haptic outcome" where
  "basic_haptic_ctor_ptr b haptic =
     (if b \<and> haptic = nullptr then (Inl (cen_exception ''Null haptic pointer!''), [])
      else (Inr \<lparr>is_owner = b, m_haptic = haptic\<rparr>, []))"

text \<open>\<open>basic_haptic(int)\<close>, available for the owning instantiation only.\<close>

definition basic_haptic_ctor_index :: "sdl \<Rightarrow> int \<Rightarrow> basic_haptic outcome" where
  "basic_haptic_ctor_index L index =
     (let p = ret_SDL_HapticOpen L index
      in (if p = nullptr then Inl sdl_error
          else Inr \<lparr>is_owner = True, m_haptic = p\<rparr>,
          [SDL_HapticOpen index]))"

definition haptic_index :: "sdl \<Rightarrow> basic_haptic \<Rightarrow> int option outcome" where
  "haptic_index L h =
     (let res = ret_SDL_HapticIndex L (m_haptic h)
      in (Inr (if res \<noteq> - 1 then Some res else None), [SDL_HapticIndex (m_haptic h)]))"

definition deleter :: "ptr \<Rightarrow> sdl_call list" where
  "deleter haptic = [SDL_HapticClose haptic]"

text \<open>
  Modelled from the spec: \<open>detail::pointer_manager\<close> (detail/owner\_handle\_api.hpp) is not
  among the sources. The glossary says an owning wrapper "destroys its underlying resource
  on destruction" and a handle is "one that merely observes it": on destruction the
  owning instantiation hands the held pointer to the deleter, the non-owning one does
  nothing.
\<close>

definition pointer_manager_dtor :: "bool \<Rightarrow> (ptr \<Rightarrow> sdl_call list) \<Rightarrow> ptr \<Rightarrow> sdl_call list" where
  "pointer_manager_dtor b del p = (if b then del p else [])"

definition basic_haptic_dtor :: "basic_haptic \<Rightarrow> sdl_call list" where
  "basic_haptic_dtor h = pointer_manager_dtor (is_owner h) deleter (m_haptic h)"

section \<open>MouseButtonEvent (mouse\_button\_event.cpp)\<close>

text \<open>
  The fields of \<open>SDL_MouseButtonEvent\<close> that the wrapper reads and writes, here with
  the prefix \<open>ev_\<close>. The struct is SDL's: whatever else it holds is the extension part
  of the record. \<open>MouseButton\<close> and \<open>ButtonState\<close> are enumerations whose declarations
  are not among the sources; a value of either is its underlying integer, of some width
  \<open>'n\<close>, and \<open>static_cast\<close> to and from \<open>u8\<close> is \<open>ucast\<close>.
\<close>

record SDL_MouseButtonEvent =
  ev_windowID :: u32
  ev_which :: u32
  ev_button :: u8
  ev_state :: u8
  ev_clicks :: u8
  ev_x :: i32
  ev_y :: i32

record 'a MouseButtonEvent =
  m_event :: "'a SDL_MouseButtonEvent_scheme"

definition MouseButtonEvent_ctor :: "'a SDL_MouseButtonEvent_scheme \<Rightarrow> 'a MouseButtonEvent" where
  "MouseButtonEvent_ctor event = \<lparr>m_event = event\<rparr>"

definition MouseButtonEvent_set_window_id :: "'a MouseButtonEvent \<Rightarrow> u32 \<Rightarrow> 'a MouseButtonEvent" where
  "MouseButtonEvent_set_window_id e wid = e\<lparr>m_event := (m_event e)\<lparr>ev_windowID := wid\<rparr>\<rparr>"

definition MouseButtonEvent_set_which :: "'a MouseButtonEvent \<Rightarrow> u32 \<Rightarrow> 'a MouseButtonEvent" where
  "MouseButtonEvent_set_which e which = e\<lparr>m_event := (m_event e)\<lparr>ev_which := which\<rparr>\<rparr>"

definition MouseButtonEvent_set_button :: "'a MouseButtonEvent \<Rightarrow> 'n::len word \<Rightarrow> 'a MouseButtonEvent" where
  "MouseButtonEvent_set_button e button = e\<lparr>m_event := (m_event e)\<lparr>ev_button := ucast button\<rparr>\<rparr>"

definition MouseButtonEvent_set_state :: "'a MouseButtonEvent \<Rightarrow> 'n::len word \<Rightarrow> 'a MouseButtonEvent" where
  "MouseButtonEvent_set_state e state = e\<lparr>m_event := (m_event e)\<lparr>ev_state := ucast state\<rparr>\<rparr>"

definition MouseButtonEvent_set_clicks :: "'a MouseButtonEvent \<Rightarrow> u8 \<Rightarrow> 'a MouseButtonEvent" where
  "MouseButtonEvent_set_clicks e clicks = e\<lparr>m_event := (m_event e)\<lparr>ev_clicks := clicks\<rparr>\<rparr>"

definition MouseButtonEvent_set_x :: "'a MouseButtonEvent \<Rightarrow> i32 \<Rightarrow> 'a MouseButtonEvent" where
  "MouseButtonEvent_set_x e x = e\<lparr>m_event := (m_event e)\<lparr>ev_x := x\<rparr>\<rparr>"

definition MouseButtonEvent_set_y :: "'a MouseButtonEvent \<Rightarrow> i32 \<Rightarrow> 'a MouseButtonEvent" where
  "MouseButtonEvent_set_y e y = e\<lparr>m_event := (m_event e)\<lparr>ev_y := y\<rparr>\<rparr>"

definition MouseButtonEvent_window_id :: "'a MouseButtonEvent \<Rightarrow> u32" where
  "MouseButtonEvent_window_id e = ev_windowID (m_event e)"

definition MouseButtonEvent_which :: "'a MouseButtonEvent \<Rightarrow> u32" where
  "MouseButtonEvent_which e = ev_which (m_event e)"

definition MouseButtonEvent_button :: "'a MouseButtonEvent \<Rightarrow> 'n::len word" where
  "MouseButtonEvent_button e = ucast (ev_button (m_event e))"

definition MouseButtonEvent_state :: "'a MouseButtonEvent \<Rightarrow> 'n::len word" where
  "MouseButtonEvent_state e = ucast (ev_state (m_event e))"

definition MouseButtonEvent_clicks :: "'a MouseButtonEvent \<Rightarrow> u8" where
  "MouseButtonEvent_clicks e = ev_clicks (m_event e)"

definition MouseButtonEvent_x :: "'a MouseButtonEvent \<Rightarrow> i32" where
  "MouseButtonEvent_x e = ev_x (m_event e)"

definition MouseButtonEvent_y :: "'a MouseButtonEvent \<Rightarrow> i32" where
  "MouseButtonEvent_y e = ev_y (m_event e)"

section \<open>pref\_path (pref\_path.hpp)\<close>

text \<open>SDL2: what \<open>SDL_GetPrefPath\<close> returns, a null pointer when something goes wrong.\<close>

record sdl_filesystem =
  ret_SDL_GetPrefPath :: "string \<Rightarrow> string \<Rightarrow> czstring"

text \<open>
  \<open>detail::sdl_string\<close> (sdl\_string.hpp) is not among the sources: it takes over the
  pointer it is constructed from, and its \<open>operator bool\<close> tells whether that pointer is
  not null (the documentation of \<open>pref_path::operator bool\<close>). It is the pointer itself
  here. The parameters are \<open>not_null<czstring>\<close>, which is a plain \<open>const char*\<close> that
  \<open>get_pref_path\<close> asserts on.
\<close>

record pref_path =
  m_path :: czstring

definition get_pref_path :: "sdl_filesystem \<Rightarrow> czstring \<Rightarrow> czstring \<Rightarrow> czstring outcome" where
  "get_pref_path FS org app =
     (case org of
        None \<Rightarrow> (Inl assertion_failed, [])
      | Some org_str \<Rightarrow>
          (case app of
             None \<Rightarrow> (Inl assertion_failed, [])
           | Some app_str \<Rightarrow>
               (Inr (ret_SDL_GetPrefPath FS org_str app_str), [SDL_GetPrefPath org_str app_str])))"

definition pref_path_ctor :: "sdl_filesystem \<Rightarrow> czstring \<Rightarrow> czstring \<Rightarrow> pref_path outcome" where
  "pref_path_ctor FS org app =
     (case get_pref_path FS org app of
        (Inl e, calls) \<Rightarrow> (Inl e, calls)
      | (Inr p, calls) \<Rightarrow> (Inr \<lparr>m_path = p\<rparr>, calls))"

text \<open>\<open>pref_path::operator bool\<close> and \<open>pref_path::get\<close>\<close>

definition pref_path_bool :: "pref_path \<Rightarrow> bool" where
  "pref_path_bool p = (m_path p \<noteq> None)"

definition pref_path_get :: "pref_path \<Rightarrow> czstring" where
  "pref_path_get p = m_path p"

section \<open>Concrete library behaviours used in the examples\<close>

text \<open>
  A mixer that cannot load \<open>missing.ogg\<close>, with no fade in progress; the same mixer while
  a fade-in is running; and an SDL in which thread creation fails for a null task, the
  time-critical priority is refused, only haptic device 0 exists and the clipboard refuses
  the empty text.
\<close>

definition example_mixer :: mixer where
  "example_mixer =
     \<lparr>MIX_MAX_VOLUME = 128, MIX_NO_FADING = 0, MIX_FADING_OUT = 1, MIX_FADING_IN = 2,
      ret_Mix_LoadMUS = (\<lambda>file. if file = ''missing.ogg'' then nullptr else 4096),
      ret_Mix_FadingMusic = 0,
      ret_Mix_VolumeMusic = (\<lambda>v. 100)\<rparr>"

definition fading_mixer :: mixer where
  "fading_mixer = example_mixer\<lparr>ret_Mix_FadingMusic := 2\<rparr>"

definition example_sdl :: sdl where
  "example_sdl =
     \<lparr>enum_consts =
        \<lparr>SDL_THREAD_PRIORITY_LOW = 0, SDL_THREAD_PRIORITY_NORMAL = 1,
         SDL_THREAD_PRIORITY_HIGH = 2, SDL_THREAD_PRIORITY_TIME_CRITICAL = 3,
         SDL_MOUSEWHEEL_NORMAL = 0, SDL_MOUSEWHEEL_FLIPPED = 1\<rparr>,
      haptic_flags =
        \<lparr>SDL_HAPTIC_CONSTANT = 1, SDL_HAPTIC_SINE = 2, SDL_HAPTIC_LEFTRIGHT = 4,
         SDL_HAPTIC_TRIANGLE = 8, SDL_HAPTIC_SAWTOOTHUP = 16, SDL_HAPTIC_SAWTOOTHDOWN = 32,
         SDL_HAPTIC_RAMP = 64, SDL_HAPTIC_SPRING = 128, SDL_HAPTIC_DAMPER = 256,
         SDL_HAPTIC_INERTIA = 512, SDL_HAPTIC_FRICTION = 1024, SDL_HAPTIC_CUSTOM = 2048,
         SDL_HAPTIC_GAIN = 4096, SDL_HAPTIC_AUTOCENTER = 8192, SDL_HAPTIC_STATUS = 16384,
         SDL_HAPTIC_PAUSE = 32768\<rparr>,
      ret_SDL_CreateThread = (\<lambda>task name data. if task = nullptr then nullptr else 8192),
      ret_SDL_WaitThread = (\<lambda>t. 7),
      ret_SDL_SetThreadPriority = (\<lambda>prio. if prio = 3 then - 1 else 0),
      ret_SDL_HapticOpen = (\<lambda>index. if index = 0 then 12288 else nullptr),
      ret_SDL_HapticIndex = (\<lambda>h. if h = 12288 then 0 else - 1),
      ret_SDL_SetClipboardText = (\<lambda>text. if text = [] then - 1 else 0)\<rparr>"

text \<open>A file system with no preference directory for the organisation \<open>nowhere\<close>.\<close>

definition example_filesystem :: sdl_filesystem where
  "example_filesystem =
     \<lparr>ret_SDL_GetPrefPath =
        (\<lambda>org app. if org = ''nowhere'' then None else Some (''/pref/'' @ org @ ''/'' @ app @ ''/''))\<rparr>"

text \<open>A mouse button event with every field the wrapper knows set.\<close>

definition example_event :: "unit MouseButtonEvent" where
  "example_event =
     \<lparr>m_event = \<lparr>ev_windowID = 75, ev_which = 23, ev_button = 4, ev_state = 1,
                 ev_clicks = 2, ev_x = 10, ev_y = 20\<rparr>\<rparr>"

section \<open>Auxiliary facts\<close>

lemma ucast_u8_roundtrip:
  fixes b :: "'n::len word"
  assumes "uint b < 256"
  shows "(ucast (ucast b :: 8 word) :: 'n word) = b"
proof -
  have "uint (ucast (ucast b :: 8 word) :: 'n word) = uint b"
    using assms by (simp add: unsigned_ucast_eq unsigned_take_bit_eq take_bit_int_eq_self)
  then show ?thesis by (rule word_uint_eqI)
qed

lemma ucast_u8_roundtrip_iff:
  fixes b :: "'n::len word"
  shows "((ucast (ucast b :: 8 word) :: 'n word) = b) = (uint b < 256)"
proof
  assume eq: "(ucast (ucast b :: 8 word) :: 'n word) = b"
  have "uint (ucast (ucast b :: 8 word) :: 'n word)
          = take_bit LENGTH('n) (uint (ucast b :: 8 word))"
    by (rule unsigned_ucast_eq)
  also have "\<dots> \<le> uint (ucast b :: 8 word)"
    by (simp add: take_bit_int_less_eq_self_iff)
  also have "\<dots> < 256"
    using uint_lt2p [of "ucast b :: 8 word"] by simp
  finally show "uint b < 256"
    using eq by simp
next
  assume "uint b < 256"
  then show "(ucast (ucast b :: 8 word) :: 'n word) = b"
    by (rule ucast_u8_roundtrip)
qed

lemma join_not_joinable:
  "\<not> joinable t \<Longrightarrow> join L t = (Inr (0, t), [])"
  by (auto simp: joinable_def join_def)

lemma detach_not_joinable:
  "\<not> joinable t \<Longrightarrow> detach t = (Inr t, [])"
  by (auto simp: joinable_def detach_def)

lemma join_joinable:
  "joinable t \<Longrightarrow>
   join L t = (Inr (ret_SDL_WaitThread L (m_thread t), t\<lparr>m_joined := True\<rparr>),
               [SDL_WaitThread (m_thread t)])"
  by (simp add: joinable_def join_def)

lemma detach_joinable:
  "joinable t \<Longrightarrow> detach t = (Inr (t\<lparr>m_detached := True\<rparr>), [SDL_DetachThread (m_thread t)])"
  by (simp add: joinable_def detach_def)

lemma thread_run_not_joinable:
  "\<not> joinable t \<Longrightarrow> thread_run L t ops = (Inr t, [])"
proof (induction ops)
  case Nil
  then show ?case by simp
next
  case (Cons op ops)
  then show ?case
    by (cases op) (simp_all add: join_not_joinable detach_not_joinable)
qed

lemma thread_run_joinable_Join:
  assumes "joinable t"
  shows "thread_run L t (Join # ops)
           = (Inr (t\<lparr>m_joined := True\<rparr>), [SDL_WaitThread (m_thread t)])"
proof -
  have "\<not> joinable (t\<lparr>m_joined := True\<rparr>)"
    by (simp add: joinable_def)
  then show ?thesis
    using assms by (simp add: join_joinable thread_run_not_joinable)
qed

lemma thread_run_joinable_Detach:
  assumes "joinable t"
  shows "thread_run L t (Detach # ops)
           = (Inr (t\<lparr>m_detached := True\<rparr>), [SDL_DetachThread (m_thread t)])"
proof -
  have "\<not> joinable (t\<lparr>m_detached := True\<rparr>)"
    by (simp add: joinable_def)
  then show ?thesis
    using assms by (simp add: detach_joinable thread_run_not_joinable)
qed

lemma thread_ctor_joinable:
  "fst (thread_ctor L task name data) = Inr t \<Longrightarrow> joinable t"
  by (auto simp: thread_ctor_def joinable_def Let_def split: if_splits)

section \<open>Constructors\<close>

text \<open>
  C2, as amended. \<open>music(file)\<close> throws \<open>mix_error\<close> exactly when \<open>Mix_LoadMUS\<close>
  returns null, \<open>thread(task, name, data)\<close> throws \<open>sdl_error\<close> exactly when
  \<open>SDL_CreateThread\<close> returns null, and the owning \<open>basic_haptic(index)\<close> throws
  \<open>sdl_error\<close> exactly when \<open>SDL_HapticOpen\<close> returns null; otherwise each completes
  holding the returned non-null handle. Each makes exactly its creation call. Not every
  constructor that invokes a creation call does so: \<open>pref_path(org, app)\<close>, given
  non-null names, never throws; it completes holding whatever \<open>SDL_GetPrefPath\<close>
  returned, null included, and its \<open>operator bool\<close> tells whether that is not null.
\<close>

theorem ctor_throws_iff_creation_returns_null:
  "(fst (music_ctor M file) = Inl (mix_error ''Failed to load music from file!''))
     = (ret_Mix_LoadMUS M file = nullptr)
   \<and> isl (fst (music_ctor M file)) = (ret_Mix_LoadMUS M file = nullptr)
   \<and> (fst (music_ctor M file) = Inr \<lparr>m_music = ret_Mix_LoadMUS M file\<rparr>)
     = (ret_Mix_LoadMUS M file \<noteq> nullptr)
   \<and> snd (music_ctor M file) = [Mix_LoadMUS file]
   \<and> (fst (thread_ctor L task name data) = Inl sdl_error)
     = (ret_SDL_CreateThread L task name data = nullptr)
   \<and> isl (fst (thread_ctor L task name data)) = (ret_SDL_CreateThread L task name data = nullptr)
   \<and> (fst (thread_ctor L task name data)
        = Inr \<lparr>m_thread = ret_SDL_CreateThread L task name data,
                m_joined = False, m_detached = False\<rparr>)
     = (ret_SDL_CreateThread L task name data \<noteq> nullptr)
   \<and> snd (thread_ctor L task name data) = [SDL_CreateThread task name data]
   \<and> (fst (basic_haptic_ctor_index L index) = Inl sdl_error)
     = (ret_SDL_HapticOpen L index = nullptr)
   \<and> isl (fst (basic_haptic_ctor_index L index)) = (ret_SDL_HapticOpen L index = nullptr)
   \<and> (fst (basic_haptic_ctor_index L index)
        = Inr \<lparr>is_owner = True, m_haptic = ret_SDL_HapticOpen L index\<rparr>)
     = (ret_SDL_HapticOpen L index \<noteq> nullptr)
   \<and> snd (basic_haptic_ctor_index L index) = [SDL_HapticOpen index]
   \<and> pref_path_ctor FS (Some org) (Some app)
       = (Inr \<lparr>m_path = ret_SDL_GetPrefPath FS org app\<rparr>, [SDL_GetPrefPath org app])
   \<and> pref_path_bool \<lparr>m_path = ret_SDL_GetPrefPath FS org app\<rparr>
       = (ret_SDL_GetPrefPath FS org app \<noteq> None)"
  by (simp add: music_ctor_def thread_ctor_def basic_haptic_ctor_index_def Let_def
      pref_path_ctor_def get_pref_path_def pref_path_bool_def)

theorem ctor_throws_iff_creation_returns_null_witness:
  "fst (music_ctor example_mixer ''missing.ogg'') = Inl (mix_error ''Failed to load music from file!'')
   \<and> fst (music_ctor example_mixer ''song.ogg'') = Inr \<lparr>m_music = 4096\<rparr>
   \<and> fst (thread_ctor example_sdl nullptr ''thread'' nullptr) = Inl sdl_error
   \<and> fst (thread_ctor example_sdl 77 ''thread'' nullptr)
       = Inr \<lparr>m_thread = 8192, m_joined = False, m_detached = False\<rparr>
   \<and> fst (basic_haptic_ctor_index example_sdl 1) = Inl sdl_error
   \<and> fst (basic_haptic_ctor_index example_sdl 0) = Inr \<lparr>is_owner = True, m_haptic = 12288\<rparr>
   \<and> pref_path_ctor example_filesystem (Some ''org'') (Some ''app'')
       = (Inr \<lparr>m_path = Some ''/pref/org/app/''\<rparr>, [SDL_GetPrefPath ''org'' ''app''])
   \<and> pref_path_ctor example_filesystem (Some ''nowhere'') (Some ''app'')
       = (Inr \<lparr>m_path = None\<rparr>, [SDL_GetPrefPath ''nowhere'' ''app''])"
  using ctor_throws_iff_creation_returns_null
      [of example_mixer "''missing.ogg''" example_sdl nullptr "''thread''" nullptr 1
          example_filesystem "''org''" "''app''"]
    ctor_throws_iff_creation_returns_null
      [of example_mixer "''song.ogg''" example_sdl 77 "''thread''" nullptr 0
          example_filesystem "''nowhere''" "''app''"]
  by (simp add: example_mixer_def example_sdl_def nullptr_def example_filesystem_def)

text \<open>
  As the specification words it, for every constructor that invokes a creation call, the
  property fails: \<open>SDL_GetPrefPath\<close> returns null for the organisation \<open>nowhere\<close>, and
  \<open>pref_path\<close> completes normally, holding the null path.
\<close>

theorem every_ctor_throws_on_null_counterexample:
  "ret_SDL_GetPrefPath example_filesystem ''nowhere'' ''app'' = None
   \<and> pref_path_ctor example_filesystem (Some ''nowhere'') (Some ''app'')
       = (Inr \<lparr>m_path = None\<rparr>, [SDL_GetPrefPath ''nowhere'' ''app''])
   \<and> \<not> isl (fst (pref_path_ctor example_filesystem (Some ''nowhere'') (Some ''app'')))
   \<and> \<not> pref_path_bool \<lparr>m_path = None\<rparr>"
  by (simp add: pref_path_ctor_def get_pref_path_def pref_path_bool_def example_filesystem_def)

section \<open>CenturionException\<close>

text \<open>
  C10. Constructing a \<open>CenturionException\<close> from a \<open>const char*\<close> is defined for every
  pointer, null included (the result is never \<open>None\<close>, so no null pointer reaches the
  string constructor); the stored message is the given string when the pointer is not
  null and \<open>N/A\<close> otherwise, and \<open>what()\<close> returns exactly the stored message.
\<close>

theorem CenturionException_null_safe:
  "CenturionException_ctor m = Some \<lparr>msg = (case m of None \<Rightarrow> ''N/A'' | Some s \<Rightarrow> s)\<rparr>
   \<and> map_option what (CenturionException_ctor m) = Some (case m of None \<Rightarrow> ''N/A'' | Some s \<Rightarrow> s)"
  by (cases m) (simp_all add: CenturionException_ctor_def std_string_from_cstr_def what_def)

section \<open>Event fields\<close>




section \<open>Enumerations\<close>

text \<open>
  C6. The underlying value of every enumerator of \<open>thread_priority\<close>,
  \<open>mouse_wheel_direction\<close> and \<open>haptic_feature\<close> is the native constant it is
  declared from, whatever values SDL gives these constants, and the mixed comparison
  operators of the first two accept each enumerator against its constant.
\<close>

theorem enum_values_equal_native_constants:
  "thread_priority_underlying K low = SDL_THREAD_PRIORITY_LOW K
   \<and> thread_priority_underlying K thread_priority.normal = SDL_THREAD_PRIORITY_NORMAL K
   \<and> thread_priority_underlying K high = SDL_THREAD_PRIORITY_HIGH K
   \<and> thread_priority_underlying K critical = SDL_THREAD_PRIORITY_TIME_CRITICAL K
   \<and> thread_priority_eq K low (SDL_THREAD_PRIORITY_LOW K)
   \<and> thread_priority_eq K thread_priority.normal (SDL_THREAD_PRIORITY_NORMAL K)
   \<and> thread_priority_eq K high (SDL_THREAD_PRIORITY_HIGH K)
   \<and> thread_priority_eq K critical (SDL_THREAD_PRIORITY_TIME_CRITICAL K)
   \<and> mouse_wheel_direction_underlying K mouse_wheel_direction.normal = SDL_MOUSEWHEEL_NORMAL K
   \<and> mouse_wheel_direction_underlying K flipped = SDL_MOUSEWHEEL_FLIPPED K
   \<and> mouse_wheel_direction_eq K mouse_wheel_direction.normal (SDL_MOUSEWHEEL_NORMAL K)
   \<and> mouse_wheel_direction_eq K flipped (SDL_MOUSEWHEEL_FLIPPED K)
   \<and> haptic_feature_underlying F constant_feature = SDL_HAPTIC_CONSTANT F
   \<and> haptic_feature_underlying F sine = SDL_HAPTIC_SINE F
   \<and> haptic_feature_underlying F left_right = SDL_HAPTIC_LEFTRIGHT F
   \<and> haptic_feature_underlying F triangle = SDL_HAPTIC_TRIANGLE F
   \<and> haptic_feature_underlying F sawtooth_up = SDL_HAPTIC_SAWTOOTHUP F
   \<and> haptic_feature_underlying F sawtooth_down = SDL_HAPTIC_SAWTOOTHDOWN F
   \<and> haptic_feature_underlying F ramp = SDL_HAPTIC_RAMP F
   \<and> haptic_feature_underlying F spring = SDL_HAPTIC_SPRING F
   \<and> haptic_feature_underlying F damper = SDL_HAPTIC_DAMPER F
   \<and> haptic_feature_underlying F inertia = SDL_HAPTIC_INERTIA F
   \<and> haptic_feature_underlying F friction = SDL_HAPTIC_FRICTION F
   \<and> haptic_feature_underlying F custom = SDL_HAPTIC_CUSTOM F
   \<and> haptic_feature_underlying F gain = SDL_HAPTIC_GAIN F
   \<and> haptic_feature_underlying F autocenter = SDL_HAPTIC_AUTOCENTER F
   \<and> haptic_feature_underlying F status = SDL_HAPTIC_STATUS F
   \<and> haptic_feature_underlying F pause = SDL_HAPTIC_PAUSE F"
  by (simp add: thread_priority_underlying_def thread_priority_eq_def
      mouse_wheel_direction_underlying_def mouse_wheel_direction_eq_def
      haptic_feature_underlying_def)

section \<open>Destructors\<close>

text \<open>
  C7. The destructor of \<open>thread\<close> calls \<open>SDL_WaitThread\<close> on the held thread exactly
  when the thread was neither joined nor detached, and otherwise makes no library call.
  The destructor of the owning haptic wrapper calls \<open>SDL_HapticClose\<close> on the held
  handle; that of the non-owning \<open>haptic_handle\<close>, which can be constructed from any
  pointer without a library call, makes no call at all.
\<close>

theorem destructors_release_resource:
  "thread_dtor L t
     = (if \<not> was_joined t \<and> \<not> was_detached t then [SDL_WaitThread (m_thread t)] else [])
   \<and> basic_haptic_dtor \<lparr>is_owner = True, m_haptic = p\<rparr> = [SDL_HapticClose p]
   \<and> basic_haptic_dtor \<lparr>is_owner = False, m_haptic = p\<rparr> = []
   \<and> basic_haptic_dtor h = (if is_owner h then [SDL_HapticClose (m_haptic h)] else [])
   \<and> basic_haptic_ctor_ptr False p = (Inr \<lparr>is_owner = False, m_haptic = p\<rparr>, [])"
  by (simp add: basic_haptic_ctor_ptr_def thread_dtor_def joinable_def join_def was_joined_def was_detached_def
      basic_haptic_dtor_def pointer_manager_dtor_def deleter_def)

theorem destructors_release_resource_witness:
  "thread_dtor example_sdl \<lparr>m_thread = 8192, m_joined = False, m_detached = False\<rparr>
     = [SDL_WaitThread 8192]
   \<and> thread_dtor example_sdl \<lparr>m_thread = 8192, m_joined = True, m_detached = False\<rparr> = []
   \<and> thread_dtor example_sdl \<lparr>m_thread = 8192, m_joined = False, m_detached = True\<rparr> = []
   \<and> basic_haptic_dtor \<lparr>is_owner = True, m_haptic = 12288\<rparr> = [SDL_HapticClose 12288]
   \<and> basic_haptic_dtor \<lparr>is_owner = False, m_haptic = 12288\<rparr> = []"
  using destructors_release_resource
      [of example_sdl "\<lparr>m_thread = 8192, m_joined = False, m_detached = False\<rparr>" 12288]
    destructors_release_resource
      [of example_sdl "\<lparr>m_thread = 8192, m_joined = True, m_detached = False\<rparr>" 12288]
    destructors_release_resource
      [of example_sdl "\<lparr>m_thread = 8192, m_joined = False, m_detached = True\<rparr>" 12288]
  by (simp add: was_joined_def was_detached_def)

section \<open>The join/detach state of a thread\<close>

text \<open>
  C8. After any sequence of \<open>join()\<close> and \<open>detach()\<close> calls on a thread object that its
  constructor returned, no assertion has failed, \<open>was_joined()\<close> and \<open>was_detached()\<close>
  are not both true, \<open>joinable()\<close> is true exactly when the sequence is empty, the held
  thread pointer is the one the constructor stored, and, once the thread is no longer
  joinable, \<open>join()\<close> returns 0 and \<open>detach()\<close> returns, both without a library call
  and without changing the object.
\<close>

theorem thread_join_detach_state_machine:
  assumes "fst (thread_ctor L task name data) = Inr t0"
  shows "\<exists>t calls. thread_run L t0 ops = (Inr t, calls)
           \<and> \<not> (was_joined t \<and> was_detached t)
           \<and> joinable t = (ops = [])
           \<and> m_thread t = m_thread t0
           \<and> (\<not> joinable t \<longrightarrow> join L t = (Inr (0, t), []) \<and> detach t = (Inr t, []))"
proof -
  have j0: "joinable t0" using assms by (rule thread_ctor_joinable)
  have step: ?thesis
    if run: "thread_run L t0 ops = (Inr t, calls)" and nj: "\<not> joinable t"
      and one: "\<not> (m_joined t \<and> m_detached t)" and same: "m_thread t = m_thread t0"
      and ne: "ops \<noteq> []" for t calls
  proof -
    have "join L t = (Inr (0, t), []) \<and> detach t = (Inr t, [])"
      using nj by (simp add: join_not_joinable detach_not_joinable)
    moreover have "\<not> (was_joined t \<and> was_detached t)"
      using one by (simp add: was_joined_def was_detached_def)
    moreover have "joinable t = (ops = [])"
      using nj ne by simp
    ultimately show ?thesis
      using run same by blast
  qed
  show ?thesis
  proof (cases ops)
    case Nil
    with j0 show ?thesis by (auto simp: joinable_def was_joined_def was_detached_def)
  next
    case (Cons op rest)
    show ?thesis
    proof (cases op)
      case Join
      have "thread_run L t0 ops
              = (Inr (t0\<lparr>m_joined := True\<rparr>), [SDL_WaitThread (m_thread t0)])"
        unfolding Cons Join by (rule thread_run_joinable_Join [OF j0])
      then show ?thesis
        by (rule step) (use j0 Cons in \<open>simp_all add: joinable_def\<close>)
    next
      case Detach
      have "thread_run L t0 ops
              = (Inr (t0\<lparr>m_detached := True\<rparr>), [SDL_DetachThread (m_thread t0)])"
        unfolding Cons Detach by (rule thread_run_joinable_Detach [OF j0])
      then show ?thesis
        by (rule step) (use j0 Cons in \<open>simp_all add: joinable_def\<close>)
    qed
  qed
qed

theorem thread_join_detach_state_machine_witness:
  "fst (thread_ctor example_sdl 77 ''thread'' nullptr)
     = Inr \<lparr>m_thread = 8192, m_joined = False, m_detached = False\<rparr>
   \<and> (\<exists>t calls. thread_run example_sdl \<lparr>m_thread = 8192, m_joined = False, m_detached = False\<rparr>
                    [Join, Detach, Join] = (Inr t, calls)
         \<and> \<not> (was_joined t \<and> was_detached t) \<and> \<not> joinable t \<and> m_thread t = 8192
         \<and> join example_sdl t = (Inr (0, t), []) \<and> detach t = (Inr t, []))"
proof -
  have h: "fst (thread_ctor example_sdl 77 ''thread'' nullptr)
     = Inr \<lparr>m_thread = 8192, m_joined = False, m_detached = False\<rparr>"
    by (simp add: thread_ctor_def example_sdl_def nullptr_def)
  from thread_join_detach_state_machine [OF h, of "[Join, Detach, Join]"] h
  show ?thesis by auto
qed

section \<open>What the music playback functions forward\<close>




text \<open>
  C9, as amended. Out-of-range arguments are clamped and no error is reported: for
  \<open>nLoops < -1\<close>, \<open>music::play\<close> and \<open>music::fade_in\<close> pass \<open>-1\<close>; for a negative
  duration \<open>music::fade_in\<close> passes 0 ms, and \<open>music::fade_out\<close> passes 0 ms when no fade
  is in progress; while a fade is in progress \<open>music::fade_out\<close> only queries the fade
  status and passes nothing. \<open>music::set_volume\<close> passes
  \<open>clamp(volume, 0, MIX_MAX_VOLUME)\<close>, which is \<open>max 0 (min MIX_MAX_VOLUME volume)\<close> when
  \<open>MIX_MAX_VOLUME\<close> is not negative. None of the four ever throws.
\<close>

theorem out_of_range_arguments_clamped:
  "(nLoops < - 1 \<longrightarrow> music_play m nLoops = (Inr (), [Mix_PlayMusic (m_music m) (- 1)]))
   \<and> (nLoops < - 1
      \<longrightarrow> music_fade_in m ms nLoops = (Inr (), [Mix_FadeInMusic (m_music m) (- 1) (max 0 ms)]))
   \<and> (ms < 0
      \<longrightarrow> music_fade_in m ms nLoops = (Inr (), [Mix_FadeInMusic (m_music m) (max (- 1) nLoops) 0]))
   \<and> (ms < 0 \<and> \<not> fst (music_is_fading M)
      \<longrightarrow> music_fade_out M ms = (Inr (), [Mix_FadingMusic, Mix_FadeOutMusic 0]))
   \<and> (fst (music_is_fading M) \<longrightarrow> music_fade_out M ms = (Inr (), [Mix_FadingMusic]))
   \<and> music_set_volume M volume
       = (Inr (), [Mix_VolumeMusic (std_clamp volume 0 (MIX_MAX_VOLUME M))])
   \<and> (0 \<le> MIX_MAX_VOLUME M
      \<longrightarrow> std_clamp volume 0 (MIX_MAX_VOLUME M) = max 0 (min (MIX_MAX_VOLUME M) volume))
   \<and> \<not> isl (fst (music_play m nLoops)) \<and> \<not> isl (fst (music_fade_in m ms nLoops))
   \<and> \<not> isl (fst (music_fade_out M ms)) \<and> \<not> isl (fst (music_set_volume M volume))"
  by (simp add: music_play_def music_fade_in_def music_fade_out_def music_is_fading_def
      music_get_fade_status_def music_set_volume_def std_clamp_def max_def min_def)

theorem out_of_range_arguments_clamped_witness:
  "(- 7::int) < - 1
   \<and> music_play \<lparr>m_music = 4096\<rparr> (- 7) = (Inr (), [Mix_PlayMusic 4096 (- 1)])
   \<and> (- 100::int) < 0
   \<and> music_fade_in \<lparr>m_music = 4096\<rparr> (- 100) (- 7) = (Inr (), [Mix_FadeInMusic 4096 (- 1) 0])
   \<and> \<not> fst (music_is_fading example_mixer)
   \<and> music_fade_out example_mixer (- 100) = (Inr (), [Mix_FadingMusic, Mix_FadeOutMusic 0])
   \<and> fst (music_is_fading fading_mixer)
   \<and> music_fade_out fading_mixer (- 100) = (Inr (), [Mix_FadingMusic])
   \<and> (0::int) \<le> MIX_MAX_VOLUME example_mixer
   \<and> music_set_volume example_mixer 129 = (Inr (), [Mix_VolumeMusic 128])
   \<and> music_set_volume example_mixer (- 1) = (Inr (), [Mix_VolumeMusic 0])"
  using out_of_range_arguments_clamped [of "- 7" "\<lparr>m_music = 4096\<rparr>" "- 100" example_mixer 129]
    out_of_range_arguments_clamped [of "- 7" "\<lparr>m_music = 4096\<rparr>" "- 100" fading_mixer "- 1"]
  by (simp add: music_is_fading_def music_get_fade_status_def fading_mixer_def example_mixer_def
      music_set_volume_def std_clamp_def music_fade_out_def)

text \<open>
  As the specification words it, the property fails for \<open>music::fade_out\<close> while a fade is in progress: with
  a duration of \<open>-5\<close> ms no call to \<open>Mix_FadeOutMusic\<close> is made, so 0 ms is not passed.
\<close>

theorem fade_out_clamps_while_fading_counterexample:
  "fst (music_is_fading fading_mixer)
   \<and> music_fade_out fading_mixer (- 5) = (Inr (), [Mix_FadingMusic])
   \<and> Mix_FadeOutMusic 0 \<notin> set (snd (music_fade_out fading_mixer (- 5)))"
  by (simp add: music_fade_out_def music_is_fading_def music_get_fade_status_def
      fading_mixer_def example_mixer_def)

section \<open>How failure is reported\<close>

text \<open>
  C3, as amended. \<open>thread::set_priority\<close>, \<open>basic_haptic::index\<close> and
  \<open>clipboard::set_text\<close> never throw; each makes its one library call and reports the
  call's failure through its return value: \<open>set_priority\<close> and \<open>set_text\<close> return true
  exactly when the native call returns 0, and \<open>index\<close> returns the empty optional
  exactly when \<open>SDL_HapticIndex\<close> returns \<open>-1\<close> and the native index otherwise.
\<close>

theorem failure_reported_by_return_value:
  "thread_set_priority L priority
     = (Inr (ret_SDL_SetThreadPriority L (thread_priority_underlying (enum_consts L) priority) = 0),
        [SDL_SetThreadPriority (thread_priority_underlying (enum_consts L) priority)])
   \<and> haptic_index L h
     = (Inr (if ret_SDL_HapticIndex L (m_haptic h) = - 1 then None
             else Some (ret_SDL_HapticIndex L (m_haptic h))),
        [SDL_HapticIndex (m_haptic h)])
   \<and> clipboard_set_text L text
     = (Inr (ret_SDL_SetClipboardText L text = 0), [SDL_SetClipboardText text])
   \<and> \<not> isl (fst (thread_set_priority L priority))
   \<and> \<not> isl (fst (haptic_index L h))
   \<and> \<not> isl (fst (clipboard_set_text L text))"
  by (simp add: thread_set_priority_def haptic_index_def clipboard_set_text_def Let_def)

theorem failure_reported_by_return_value_witness:
  "thread_set_priority example_sdl critical = (Inr False, [SDL_SetThreadPriority 3])
   \<and> thread_set_priority example_sdl low = (Inr True, [SDL_SetThreadPriority 0])
   \<and> haptic_index example_sdl \<lparr>is_owner = True, m_haptic = 12288\<rparr>
       = (Inr (Some 0), [SDL_HapticIndex 12288])
   \<and> haptic_index example_sdl \<lparr>is_owner = False, m_haptic = 555\<rparr>
       = (Inr None, [SDL_HapticIndex 555])
   \<and> clipboard_set_text example_sdl ''abc'' = (Inr True, [SDL_SetClipboardText ''abc''])"
  using failure_reported_by_return_value
      [of example_sdl critical "\<lparr>is_owner = True, m_haptic = 12288\<rparr>" "''abc''"]
    failure_reported_by_return_value
      [of example_sdl low "\<lparr>is_owner = False, m_haptic = 555\<rparr>" "''abc''"]
  by (simp add: thread_priority_underlying_def example_sdl_def)

text \<open>
  As the specification words it, the property fails: when the native call signals failure, each of the three
  returns normally (false, or the empty optional) instead of throwing.
\<close>

theorem failure_always_thrown_counterexample:
  "ret_SDL_SetThreadPriority example_sdl
       (thread_priority_underlying (enum_consts example_sdl) critical) \<noteq> 0
   \<and> thread_set_priority example_sdl critical = (Inr False, [SDL_SetThreadPriority 3])
   \<and> ret_SDL_HapticIndex example_sdl 555 = - 1
   \<and> haptic_index example_sdl \<lparr>is_owner = False, m_haptic = 555\<rparr>
       = (Inr None, [SDL_HapticIndex 555])
   \<and> ret_SDL_SetClipboardText example_sdl '''' \<noteq> 0
   \<and> clipboard_set_text example_sdl '''' = (Inr False, [SDL_SetClipboardText ''''])"
  by (simp add: thread_set_priority_def haptic_index_def clipboard_set_text_def
      thread_priority_underlying_def example_sdl_def)

section \<open>Guarded forwarding\<close>

text \<open>
  C4, as amended. \<open>music::fade_out\<close> first queries \<open>Mix_FadingMusic\<close> and then calls
  \<open>Mix_FadeOutMusic\<close> exactly once, with the duration clamped at 0, when no fade is in
  progress, and not at all while one is. \<open>thread::join\<close> calls \<open>SDL_WaitThread\<close> exactly
  once when the thread is joinable, returning the status the library reports, and makes no
  library call and returns 0 when the thread was already joined or detached.
\<close>

theorem forwarding_call_is_guarded:
  "music_fade_out M ms
     = (Inr (),
        Mix_FadingMusic #
        (if ret_Mix_FadingMusic M = MIX_FADING_IN M \<or> ret_Mix_FadingMusic M = MIX_FADING_OUT M
         then [] else [Mix_FadeOutMusic (max 0 ms)]))
   \<and> snd (join L t) = (if joinable t then [SDL_WaitThread (m_thread t)] else [])
   \<and> fst (join L t)
     = (if joinable t then Inr (ret_SDL_WaitThread L (m_thread t), t\<lparr>m_joined := True\<rparr>)
        else Inr (0, t))"
  by (simp add: music_fade_out_def music_is_fading_def music_get_fade_status_def
      join_def joinable_def max_def)

theorem forwarding_call_is_guarded_witness:
  "music_fade_out example_mixer 100 = (Inr (), [Mix_FadingMusic, Mix_FadeOutMusic 100])
   \<and> music_fade_out fading_mixer 100 = (Inr (), [Mix_FadingMusic])
   \<and> join example_sdl \<lparr>m_thread = 8192, m_joined = False, m_detached = False\<rparr>
       = (Inr (7, \<lparr>m_thread = 8192, m_joined = True, m_detached = False\<rparr>), [SDL_WaitThread 8192])
   \<and> join example_sdl \<lparr>m_thread = 8192, m_joined = True, m_detached = False\<rparr>
       = (Inr (0, \<lparr>m_thread = 8192, m_joined = True, m_detached = False\<rparr>), [])"
  using forwarding_call_is_guarded
      [of example_mixer 100 example_sdl "\<lparr>m_thread = 8192, m_joined = False, m_detached = False\<rparr>"]
    forwarding_call_is_guarded
      [of fading_mixer 100 example_sdl "\<lparr>m_thread = 8192, m_joined = True, m_detached = False\<rparr>"]
  by (simp add: fading_mixer_def example_mixer_def example_sdl_def joinable_def prod_eq_iff)

text \<open>
  As the specification words it, the property fails: during a fade-in \<open>music::fade_out\<close> never reaches
  \<open>Mix_FadeOutMusic\<close>, and \<open>thread::join\<close> on a joined or detached thread never reaches
  \<open>SDL_WaitThread\<close>.
\<close>

theorem one_forwarding_call_counterexample:
  "music_fade_out fading_mixer 100 = (Inr (), [Mix_FadingMusic])
   \<and> Mix_FadeOutMusic 100 \<notin> set (snd (music_fade_out fading_mixer 100))
   \<and> join example_sdl \<lparr>m_thread = 8192, m_joined = True, m_detached = False\<rparr>
       = (Inr (0, \<lparr>m_thread = 8192, m_joined = True, m_detached = False\<rparr>), [])
   \<and> SDL_WaitThread 8192
       \<notin> set (snd (join example_sdl \<lparr>m_thread = 8192, m_joined = False, m_detached = True\<rparr>))"
  by (simp add: music_fade_out_def music_is_fading_def music_get_fade_status_def
      fading_mixer_def example_mixer_def join_def)

end
